theory Spec2Isabelle
  imports Complex_Main
begin

section \<open>UTI triage worker: the escalation policy\<close>

text \<open>
  The interfaces \<^verbatim>\<open>UTISymptom\<close>, \<^verbatim>\<open>UTIRedFlag\<close> and \<^verbatim>\<open>UTITriageResult\<close> of the
  triage worker. The string-literal unions are datatypes. Several interfaces of the source
  have a field \<^verbatim>\<open>type\<close>, \<^verbatim>\<open>present\<close>, \<^verbatim>\<open>symptoms\<close> or \<^verbatim>\<open>redFlags\<close>; the record fields
  carry a prefix to keep them apart:
  \<^verbatim>\<open>UTISymptom.type\<close> is \<open>symptom_type\<close>, \<^verbatim>\<open>UTISymptom.present\<close> is \<open>symptom_present\<close>,
  \<^verbatim>\<open>UTIRedFlag.type\<close> is \<open>flag_type\<close>, \<^verbatim>\<open>UTIRedFlag.present\<close> is \<open>flag_present\<close>,
  \<^verbatim>\<open>UTITriageResult.redFlags\<close> is \<open>result_redFlags\<close> and
  \<^verbatim>\<open>UTITriageResult.symptoms\<close> is \<open>result_symptoms\<close>.
  An optional field is an \<open>option\<close>. The field \<^verbatim>\<open>duration\<close> is a JavaScript number that
  the worker only carries along and never reads.
\<close>

datatype UTISymptomType =
  burning_pain | frequency | cloudy_urine | lower_abdominal_pain | general_malaise

datatype Severity = mild | moderate | severe

record UTISymptom =
  symptom_type :: UTISymptomType
  symptom_present :: bool
  severity :: "Severity option"
  duration :: "real option"

datatype UTIRedFlagType =
  high_temperature | kidney_pain | nausea_vomiting | blood_in_urine
  | symptoms_over_7_days | pregnancy | diabetes | immunocompromised

record UTIRedFlag =
  flag_type :: UTIRedFlagType
  flag_present :: bool

datatype Recommendation = treat | escalate | refer

record UTITriageResult =
  suitableForTreatment :: bool
  result_redFlags :: "UTIRedFlag list"
  result_symptoms :: "UTISymptom list"
  recommendation :: Recommendation
  reasoning :: string

text \<open>The string that a red flag's \<^verbatim>\<open>type\<close> is in the source.\<close>

fun UTIRedFlagType_string :: "UTIRedFlagType \<Rightarrow> string" where
  "UTIRedFlagType_string high_temperature = ''high_temperature''"
| "UTIRedFlagType_string kidney_pain = ''kidney_pain''"
| "UTIRedFlagType_string nausea_vomiting = ''nausea_vomiting''"
| "UTIRedFlagType_string blood_in_urine = ''blood_in_urine''"
| "UTIRedFlagType_string symptoms_over_7_days = ''symptoms_over_7_days''"
| "UTIRedFlagType_string pregnancy = ''pregnancy''"
| "UTIRedFlagType_string diabetes = ''diabetes''"
| "UTIRedFlagType_string immunocompromised = ''immunocompromised''"

text \<open>\<^verbatim>\<open>Array.prototype.join\<close> on an array of strings.\<close>

fun join :: "string \<Rightarrow> string list \<Rightarrow> string" where
  "join sep [] = []"
| "join sep [x] = x"
| "join sep (x # y # ys) = x @ sep @ join sep (y # ys)"

text \<open>
  The decimal digits of a natural number, as the template literal
  \<^verbatim>\<open>${mainSymptoms}\<close> prints the count.
\<close>

definition digit_char :: "nat \<Rightarrow> char" where
  "digit_char d = char_of (48 + d)"

function string_of_nat :: "nat \<Rightarrow> string" where
  "string_of_nat n =
     (if n < 10 then [digit_char n]
      else string_of_nat (n div 10) @ [digit_char (n mod 10)])"
  by pat_completeness auto
termination
  by (relation "measure id") auto

text \<open>
  \<^verbatim>\<open>assessUTISymptoms(symptoms, redFlags)\<close>: the red flags whose \<^verbatim>\<open>present\<close> is true
  are filtered out first, and a non-empty filtered array returns at once. Otherwise each
  of the four main symptom kinds is looked for with \<^verbatim>\<open>symptoms.some(...)\<close>, the four
  booleans are put in an array and the true ones counted.
\<close>

definition assessUTISymptoms :: "UTISymptom list \<Rightarrow> UTIRedFlag list \<Rightarrow> UTITriageResult" where
  "assessUTISymptoms symptoms redFlags =
     (let presentRedFlags = filter (\<lambda>rf. flag_present rf) redFlags in
      if length presentRedFlags > 0 then
        \<lparr> suitableForTreatment = False,
          result_redFlags = presentRedFlags,
          result_symptoms = symptoms,
          recommendation = escalate,
          reasoning = ''Red flags detected: ''
            @ join '', '' (map (\<lambda>rf. UTIRedFlagType_string (flag_type rf)) presentRedFlags)
            @ ''. Immediate pharmacist review required.'' \<rparr>
      else
        let hasBurningPain =
              list_ex (\<lambda>s. symptom_type s = burning_pain \<and> symptom_present s) symptoms;
            hasFrequency =
              list_ex (\<lambda>s. symptom_type s = frequency \<and> symptom_present s) symptoms;
            hasCloudyUrine =
              list_ex (\<lambda>s. symptom_type s = cloudy_urine \<and> symptom_present s) symptoms;
            hasLowerPain =
              list_ex (\<lambda>s. symptom_type s = lower_abdominal_pain \<and> symptom_present s) symptoms;
            mainSymptoms =
              length (filter (\<lambda>b. b) [hasBurningPain, hasFrequency, hasCloudyUrine, hasLowerPain])
        in
        if mainSymptoms \<ge> 2 then
          \<lparr> suitableForTreatment = True,
            result_redFlags = [],
            result_symptoms = symptoms,
            recommendation = treat,
            reasoning = ''Patient presents with '' @ string_of_nat mainSymptoms
              @ '' main UTI symptoms. Suitable for Pharmacy First treatment pending pharmacist confirmation.'' \<rparr>
        else
          \<lparr> suitableForTreatment = False,
            result_redFlags = [],
            result_symptoms = symptoms,
            recommendation = escalate,
            reasoning = ''Insufficient or unclear symptoms. Pharmacist review recommended.'' \<rparr>)"

section \<open>The triage state machine\<close>

text \<open>
  \<^verbatim>\<open>TriageState\<close> is a union of nine string literals. \<^verbatim>\<open>TriageContext\<close> is the
  session: the optional fields are options; \<^verbatim>\<open>metadata\<close> is a dictionary.
  \<^verbatim>\<open>FollowUpOption\<close> and \<^verbatim>\<open>DeliveryOption\<close> are unions of string literals too, and the
  fields of these types are assigned from \<^verbatim>\<open>event.data?.option\<close> with no check, so they
  hold strings. The arrays \<^verbatim>\<open>symptoms\<close> and \<^verbatim>\<open>redFlags\<close> receive
  \<^verbatim>\<open>event.data?.symptom\<close> and \<^verbatim>\<open>event.data?.redFlag\<close> by \<^verbatim>\<open>push\<close>, also when that
  value is \<^verbatim>\<open>undefined\<close>: their elements are \<open>string option\<close>, \<open>None\<close> for
  \<^verbatim>\<open>undefined\<close>.
\<close>

datatype TriageState =
  INITIAL
  | IDENTITY_VERIFICATION
  | SYMPTOM_ASSESSMENT
  | RED_FLAG_CHECK
  | FOLLOW_UP_SELECTION
  | DELIVERY_OPTIONS
  | CONFIRMATION
  | ESCALATED
  | COMPLETED

record TriageContext =
  state :: TriageState
  patientId :: "string option"
  patientName :: "string option"
  patientDOB :: "string option"
  symptoms :: "string option list"
  redFlags :: "string option list"
  followUpOption :: "string option"
  deliveryOption :: "string option"
  language :: "string option"
  metadata :: "string \<rightharpoonup> string"

text \<open>
  \<^verbatim>\<open>TriageEvent\<close> is \<^verbatim>\<open>{ type: string; data?: any }\<close>. The payload \<^verbatim>\<open>data\<close> is a
  record of the seven properties that \<^verbatim>\<open>processEvent\<close> reads from it, each of them
  optional (\<^verbatim>\<open>event.data?.name\<close> is \<^verbatim>\<open>undefined\<close> when \<^verbatim>\<open>data\<close> or the property is
  missing). The source casts \<^verbatim>\<open>previousState\<close> to \<^verbatim>\<open>TriageState\<close>, so the property has
  that type here; every \<^verbatim>\<open>TriageState\<close> is a non-empty string and so passes the test
  \<^verbatim>\<open>if (previousState)\<close>, which only a missing value fails.
  \<^verbatim>\<open>TriageEvent.type\<close> is \<open>event_type\<close>; the properties of \<^verbatim>\<open>data\<close> carry the prefix
  \<open>d_\<close>.
\<close>

record EventData =
  d_patientId :: "string option"
  d_name :: "string option"
  d_dob :: "string option"
  d_symptom :: "string option"
  d_redFlag :: "string option"
  d_option :: "string option"
  d_previousState :: "TriageState option"

record TriageEvent =
  event_type :: string
  data :: "EventData option"

text \<open>\<^verbatim>\<open>event.data?.p\<close>: the property \<open>p\<close> of the payload, \<open>None\<close> without a payload.\<close>

definition data_prop :: "TriageEvent \<Rightarrow> (EventData \<Rightarrow> 'a option) \<Rightarrow> 'a option" where
  "data_prop event p = (case data event of None \<Rightarrow> None | Some d \<Rightarrow> p d)"

text \<open>
  The constructor: the default context, overwritten by the properties of
  \<^verbatim>\<open>initialContext\<close> (a \<^verbatim>\<open>Partial<TriageContext>\<close>, every property optional) that are
  there. The properties carry the prefix \<open>p_\<close>.
\<close>

record PartialTriageContext =
  p_state :: "TriageState option"
  p_patientId :: "string option"
  p_patientName :: "string option"
  p_patientDOB :: "string option"
  p_symptoms :: "string option list option"
  p_redFlags :: "string option list option"
  p_followUpOption :: "string option"
  p_deliveryOption :: "string option"
  p_language :: "string option"
  p_metadata :: "(string \<rightharpoonup> string) option"

definition UTITriageStateMachine_new :: "PartialTriageContext option \<Rightarrow> TriageContext" where
  "UTITriageStateMachine_new initialContext =
     (case initialContext of
        None \<Rightarrow>
          \<lparr> state = INITIAL, patientId = None, patientName = None, patientDOB = None,
            symptoms = [], redFlags = [], followUpOption = None, deliveryOption = None,
            language = None, metadata = Map.empty \<rparr>
      | Some ic \<Rightarrow>
          \<lparr> state = (case p_state ic of None \<Rightarrow> INITIAL | Some s \<Rightarrow> s),
            patientId = p_patientId ic,
            patientName = p_patientName ic,
            patientDOB = p_patientDOB ic,
            symptoms = (case p_symptoms ic of None \<Rightarrow> [] | Some xs \<Rightarrow> xs),
            redFlags = (case p_redFlags ic of None \<Rightarrow> [] | Some xs \<Rightarrow> xs),
            followUpOption = p_followUpOption ic,
            deliveryOption = p_deliveryOption ic,
            language = p_language ic,
            metadata = (case p_metadata ic of None \<Rightarrow> Map.empty | Some m \<Rightarrow> m) \<rparr>)"

definition createTriageStateMachine :: "PartialTriageContext option \<Rightarrow> TriageContext" where
  "createTriageStateMachine initialContext = UTITriageStateMachine_new initialContext"

text \<open>
  \<^verbatim>\<open>processEvent(event)\<close> updates \<^verbatim>\<open>this.context\<close> in the \<^verbatim>\<open>switch\<close> on the current
  state, which is \<open>processEvent_switch\<close>, and then returns the object
  \<^verbatim>\<open>{ newState, context }\<close>, whose \<^verbatim>\<open>context\<close> is the field \<open>result_context\<close>. The
  machine's context is passed in, and the pair of the returned object and the updated
  context is passed out. The source has no \<^verbatim>\<open>throw\<close>, and \<^verbatim>\<open>?.\<close> and \<^verbatim>\<open>push\<close> on
  an array do not throw: there is no error result.
\<close>

record ProcessEventResult =
  newState :: TriageState
  result_context :: TriageContext

definition processEvent_switch :: "TriageContext \<Rightarrow> TriageEvent \<Rightarrow> TriageContext" where
  "processEvent_switch ctx event =
     (case state ctx of
           INITIAL \<Rightarrow>
             if event_type event = ''START_TRIAGE'' then ctx\<lparr>state := IDENTITY_VERIFICATION\<rparr>
             else ctx
         | IDENTITY_VERIFICATION \<Rightarrow>
             if event_type event = ''IDENTITY_VERIFIED'' then
               ctx\<lparr>patientId := data_prop event d_patientId,
                   patientName := data_prop event d_name,
                   patientDOB := data_prop event d_dob,
                   state := SYMPTOM_ASSESSMENT\<rparr>
             else if event_type event = ''IDENTITY_FAILED'' then
               ctx\<lparr>state := IDENTITY_VERIFICATION\<rparr>
             else ctx
         | SYMPTOM_ASSESSMENT \<Rightarrow>
             if event_type event = ''SYMPTOM_RECORDED'' then
               ctx\<lparr>symptoms := symptoms ctx @ [data_prop event d_symptom]\<rparr>
             else if event_type event = ''SYMPTOMS_COMPLETE'' then
               ctx\<lparr>state := RED_FLAG_CHECK\<rparr>
             else ctx
         | RED_FLAG_CHECK \<Rightarrow>
             if event_type event = ''RED_FLAG_DETECTED'' then
               ctx\<lparr>redFlags := redFlags ctx @ [data_prop event d_redFlag],
                   state := ESCALATED\<rparr>
             else if event_type event = ''NO_RED_FLAGS'' then
               ctx\<lparr>state := FOLLOW_UP_SELECTION\<rparr>
             else ctx
         | FOLLOW_UP_SELECTION \<Rightarrow>
             if event_type event = ''FOLLOW_UP_SELECTED'' then
               (if data_prop event d_option = Some ''TEXT_MESSAGE'' then
                  ctx\<lparr>followUpOption := data_prop event d_option, state := DELIVERY_OPTIONS\<rparr>
                else
                  ctx\<lparr>followUpOption := data_prop event d_option, state := CONFIRMATION\<rparr>)
             else ctx
         | DELIVERY_OPTIONS \<Rightarrow>
             if event_type event = ''DELIVERY_SELECTED'' then
               ctx\<lparr>deliveryOption := data_prop event d_option, state := CONFIRMATION\<rparr>
             else if event_type event = ''PICKUP_SELECTED'' then
               ctx\<lparr>deliveryOption := Some ''PICKUP'', state := CONFIRMATION\<rparr>
             else ctx
         | CONFIRMATION \<Rightarrow>
             if event_type event = ''CONFIRMED'' then ctx\<lparr>state := COMPLETED\<rparr>
             else if event_type event = ''CHANGE_REQUESTED'' then
               (case data_prop event d_previousState of
                  Some previousState \<Rightarrow> ctx\<lparr>state := previousState\<rparr>
                | None \<Rightarrow> ctx)
             else ctx
         | ESCALATED \<Rightarrow> ctx
         | COMPLETED \<Rightarrow> ctx)"

definition processEvent :: "TriageContext \<Rightarrow> TriageEvent \<Rightarrow> ProcessEventResult \<times> TriageContext" where
  "processEvent ctx event =
     (let ctx' = processEvent_switch ctx event
      in (\<lparr> newState = state ctx', result_context = ctx' \<rparr>, ctx'))"

text \<open>The other methods of the class, each on the machine's context.\<close>

definition getState :: "TriageContext \<Rightarrow> TriageState" where
  "getState ctx = state ctx"

definition getContext :: "TriageContext \<Rightarrow> TriageContext" where
  "getContext ctx = ctx"

definition updateMetadata :: "TriageContext \<Rightarrow> string \<Rightarrow> string \<Rightarrow> TriageContext" where
  "updateMetadata ctx key v = ctx\<lparr>metadata := (metadata ctx)(key \<mapsto> v)\<rparr>"

definition setLanguage :: "TriageContext \<Rightarrow> string \<Rightarrow> TriageContext" where
  "setLanguage ctx lang = ctx\<lparr>language := Some lang\<rparr>"

definition isComplete :: "TriageContext \<Rightarrow> bool" where
  "isComplete ctx = (state ctx = COMPLETED \<or> state ctx = ESCALATED)"

definition needsPharmacistReview :: "TriageContext \<Rightarrow> bool" where
  "needsPharmacistReview ctx =
     (state ctx = ESCALATED \<or> length (redFlags ctx) > 0 \<or> state ctx = CONFIRMATION)"

definition getNextQuestion :: "TriageContext \<Rightarrow> string option" where
  "getNextQuestion ctx =
     (case state ctx of
        IDENTITY_VERIFICATION \<Rightarrow>
          Some ''To help you today, could I please have your full name and date of birth?''
      | SYMPTOM_ASSESSMENT \<Rightarrow> Some ''Can you tell me about your symptoms?''
      | RED_FLAG_CHECK \<Rightarrow>
          Some ''Do you have any of the following: high temperature, pain in your sides or back, nausea, or blood in your urine?''
      | FOLLOW_UP_SELECTION \<Rightarrow>
          Some ''How would you like to proceed? I can arrange a phone call from our pharmacist, an in-person consultation, or send you a text message with medication details.''
      | DELIVERY_OPTIONS \<Rightarrow>
          Some ''Would you like to collect the medication from the pharmacy, or have it delivered?''
      | CONFIRMATION \<Rightarrow> Some ''Is there anything else I can help you with today?''
      | _ \<Rightarrow> None)"

text \<open>
  A caller's sequence of \<^verbatim>\<open>processEvent\<close> calls on one machine: the context after the
  last call, and the states the session has been in, the first one included.
\<close>

fun processEvents :: "TriageContext \<Rightarrow> TriageEvent list \<Rightarrow> TriageContext" where
  "processEvents ctx [] = ctx"
| "processEvents ctx (e # es) = processEvents (snd (processEvent ctx e)) es"

fun visitedStates :: "TriageContext \<Rightarrow> TriageEvent list \<Rightarrow> TriageState list" where
  "visitedStates ctx [] = [state ctx]"
| "visitedStates ctx (e # es) = state ctx # visitedStates (snd (processEvent ctx e)) es"

section \<open>The specification's notions\<close>

text \<open>
  The count of present main symptoms in the specification's words: of the four main
  symptom kinds, the number of those that some entry of the input reports as present.
\<close>

definition mainSymptomKinds :: "UTISymptomType set" where
  "mainSymptomKinds = {burning_pain, frequency, cloudy_urine, lower_abdominal_pain}"

definition presentSymptomKinds :: "UTISymptom list \<Rightarrow> UTISymptomType set" where
  "presentSymptomKinds syms = symptom_type ` {s \<in> set syms. symptom_present s}"

definition presentMainSymptomCount :: "UTISymptom list \<Rightarrow> nat" where
  "presentMainSymptomCount syms = card (mainSymptomKinds \<inter> presentSymptomKinds syms)"

text \<open>
  The rows of the specification's transition table, as pairs of a state and an event
  kind: twelve rows with a transition and the two rows of the absorbing states, which
  stand for every event.
\<close>

definition listedTransition :: "TriageState \<Rightarrow> string \<Rightarrow> bool" where
  "listedTransition s t =
     (case s of
        INITIAL \<Rightarrow> t = ''START_TRIAGE''
      | IDENTITY_VERIFICATION \<Rightarrow> t = ''IDENTITY_VERIFIED'' \<or> t = ''IDENTITY_FAILED''
      | SYMPTOM_ASSESSMENT \<Rightarrow> t = ''SYMPTOM_RECORDED'' \<or> t = ''SYMPTOMS_COMPLETE''
      | RED_FLAG_CHECK \<Rightarrow> t = ''RED_FLAG_DETECTED'' \<or> t = ''NO_RED_FLAGS''
      | FOLLOW_UP_SELECTION \<Rightarrow> t = ''FOLLOW_UP_SELECTED''
      | DELIVERY_OPTIONS \<Rightarrow> t = ''DELIVERY_SELECTED'' \<or> t = ''PICKUP_SELECTED''
      | CONFIRMATION \<Rightarrow> t = ''CONFIRMED'' \<or> t = ''CHANGE_REQUESTED''
      | ESCALATED \<Rightarrow> True
      | COMPLETED \<Rightarrow> True)"


section \<open>Inputs of the test suite and of the specification's scenarios\<close>

definition symptomPresent :: "UTISymptomType \<Rightarrow> UTISymptom" where
  "symptomPresent k =
     \<lparr> symptom_type = k, symptom_present = True, severity = None, duration = None \<rparr>"

definition noData :: EventData where
  "noData =
     \<lparr> d_patientId = None, d_name = None, d_dob = None, d_symptom = None,
       d_redFlag = None, d_option = None, d_previousState = None \<rparr>"

definition bare :: "string \<Rightarrow> TriageEvent" where
  "bare t = \<lparr> event_type = t, data = None \<rparr>"

definition identityVerified :: TriageEvent where
  "identityVerified =
     \<lparr> event_type = ''IDENTITY_VERIFIED'',
       data = Some (noData\<lparr>d_name := Some ''Jane Doe'', d_dob := Some ''1990-01-01''\<rparr>) \<rparr>"

definition identityWithoutName :: TriageEvent where
  "identityWithoutName =
     \<lparr> event_type = ''IDENTITY_VERIFIED'',
       data = Some (noData\<lparr>d_dob := Some ''1990-01-01''\<rparr>) \<rparr>"

definition symptomRecorded :: "string \<Rightarrow> TriageEvent" where
  "symptomRecorded k =
     \<lparr> event_type = ''SYMPTOM_RECORDED'', data = Some (noData\<lparr>d_symptom := Some k\<rparr>) \<rparr>"

definition redFlagDetected :: "string \<Rightarrow> TriageEvent" where
  "redFlagDetected k =
     \<lparr> event_type = ''RED_FLAG_DETECTED'', data = Some (noData\<lparr>d_redFlag := Some k\<rparr>) \<rparr>"

definition followUpSelected :: "string \<Rightarrow> TriageEvent" where
  "followUpSelected k =
     \<lparr> event_type = ''FOLLOW_UP_SELECTED'', data = Some (noData\<lparr>d_option := Some k\<rparr>) \<rparr>"

definition changeRequested :: "TriageState \<Rightarrow> TriageEvent" where
  "changeRequested target =
     \<lparr> event_type = ''CHANGE_REQUESTED'',
       data = Some (noData\<lparr>d_previousState := Some target\<rparr>) \<rparr>"


text \<open>
  The events of the test \<^verbatim>\<open>should escalate immediately on red flag\<close>, and those that
  lead a new machine to \<open>CONFIRMATION\<close> by a phone call, without \<open>DELIVERY_OPTIONS\<close>.
\<close>

definition escalationEvents :: "TriageEvent list" where
  "escalationEvents =
     [bare ''START_TRIAGE'', identityVerified, bare ''SYMPTOMS_COMPLETE'',
      redFlagDetected ''high_temperature'']"

definition phoneCallEvents :: "TriageEvent list" where
  "phoneCallEvents =
     [bare ''START_TRIAGE'', identityVerified, bare ''SYMPTOMS_COMPLETE'',
      bare ''NO_RED_FLAGS'', followUpSelected ''PHONE_CALL'']"

section \<open>Auxiliary facts\<close>

lemmas event_defs =
  bare_def identityVerified_def identityWithoutName_def symptomRecorded_def
  redFlagDetected_def followUpSelected_def changeRequested_def noData_def data_prop_def

subsection \<open>The escalation policy\<close>

lemma presentSymptomKinds_Nil: "presentSymptomKinds [] = {}"
  by (simp add: presentSymptomKinds_def)

lemma presentSymptomKinds_Cons:
  "presentSymptomKinds (s # ss) =
     (if symptom_present s then insert (symptom_type s) (presentSymptomKinds ss)
      else presentSymptomKinds ss)"
  by (auto simp: presentSymptomKinds_def)

lemma some_present_iff:
  "list_ex (\<lambda>s. symptom_type s = k \<and> symptom_present s) syms \<longleftrightarrow>
   k \<in> presentSymptomKinds syms"
  by (auto simp: presentSymptomKinds_def list_ex_iff)

text \<open>The number that the source computes in \<^verbatim>\<open>mainSymptoms\<close> is the specification's count.\<close>

lemma counted_booleans:
  "length (filter (\<lambda>b. b)
     [list_ex (\<lambda>s. symptom_type s = burning_pain \<and> symptom_present s) syms,
      list_ex (\<lambda>s. symptom_type s = frequency \<and> symptom_present s) syms,
      list_ex (\<lambda>s. symptom_type s = cloudy_urine \<and> symptom_present s) syms,
      list_ex (\<lambda>s. symptom_type s = lower_abdominal_pain \<and> symptom_present s) syms])
   = presentMainSymptomCount syms"
  unfolding presentMainSymptomCount_def mainSymptomKinds_def some_present_iff
  by (simp add: Int_insert_left)

lemma no_present_flag:
  "(\<forall>rf\<in>set flags. \<not> flag_present rf) \<longleftrightarrow> filter (\<lambda>rf. flag_present rf) flags = []"
  by (simp add: filter_empty_conv)

lemma count_three_kinds:
  "presentMainSymptomCount
     [symptomPresent burning_pain, symptomPresent frequency, symptomPresent cloudy_urine] = 3"
  by (simp add: presentMainSymptomCount_def mainSymptomKinds_def presentSymptomKinds_Cons
      presentSymptomKinds_Nil symptomPresent_def)

lemma count_one_kind_twice:
  "presentMainSymptomCount [symptomPresent burning_pain, symptomPresent burning_pain] = 1"
  by (simp add: presentMainSymptomCount_def mainSymptomKinds_def presentSymptomKinds_Cons
      presentSymptomKinds_Nil symptomPresent_def)

subsection \<open>The state machine\<close>

lemma processEvent_eq:
  "processEvent ctx event =
     (\<lparr> newState = state (processEvent_switch ctx event),
        result_context = processEvent_switch ctx event \<rparr>,
      processEvent_switch ctx event)"
  by (simp add: processEvent_def Let_def)

lemma snd_processEvent: "snd (processEvent ctx event) = processEvent_switch ctx event"
  by (simp add: processEvent_eq)

lemma terminal_step:
  "state ctx = ESCALATED \<or> state ctx = COMPLETED \<Longrightarrow>
   processEvent ctx event = (\<lparr> newState = state ctx, result_context = ctx \<rparr>, ctx)"
  by (auto simp: processEvent_eq processEvent_switch_def)

lemma terminal_run:
  "state ctx = ESCALATED \<or> state ctx = COMPLETED \<Longrightarrow> processEvents ctx es = ctx"
  by (induction es) (simp_all add: terminal_step)

lemma processEvents_append:
  "processEvents ctx (es @ es') = processEvents (processEvents ctx es) es'"
  by (induction es arbitrary: ctx) simp_all

lemma new_machine:
  "UTITriageStateMachine_new None =
     \<lparr> state = INITIAL, patientId = None, patientName = None, patientDOB = None,
       symptoms = [], redFlags = [], followUpOption = None, deliveryOption = None,
       language = None, metadata = Map.empty \<rparr>"
  by (simp add: UTITriageStateMachine_new_def)

lemma run_start:
  "processEvents (UTITriageStateMachine_new None) [bare ''START_TRIAGE''] =
     \<lparr> state = IDENTITY_VERIFICATION, patientId = None, patientName = None,
       patientDOB = None, symptoms = [], redFlags = [], followUpOption = None,
       deliveryOption = None, language = None, metadata = Map.empty \<rparr>"
  by (simp add: event_defs snd_processEvent processEvent_switch_def new_machine)

lemma run_identity:
  "processEvents (UTITriageStateMachine_new None) [bare ''START_TRIAGE'', identityVerified] =
     \<lparr> state = SYMPTOM_ASSESSMENT, patientId = None, patientName = Some ''Jane Doe'',
       patientDOB = Some ''1990-01-01'', symptoms = [], redFlags = [], followUpOption = None,
       deliveryOption = None, language = None, metadata = Map.empty \<rparr>"
  by (simp add: event_defs snd_processEvent processEvent_switch_def new_machine)

lemma run_escalation:
  "processEvents (UTITriageStateMachine_new None) escalationEvents =
     \<lparr> state = ESCALATED, patientId = None, patientName = Some ''Jane Doe'',
       patientDOB = Some ''1990-01-01'', symptoms = [], redFlags = [Some ''high_temperature''],
       followUpOption = None, deliveryOption = None, language = None, metadata = Map.empty \<rparr>"
  by (simp add: escalationEvents_def event_defs snd_processEvent processEvent_switch_def
      new_machine)

lemma run_phoneCall:
  "processEvents (UTITriageStateMachine_new None) phoneCallEvents =
     \<lparr> state = CONFIRMATION, patientId = None, patientName = Some ''Jane Doe'',
       patientDOB = Some ''1990-01-01'', symptoms = [], redFlags = [],
       followUpOption = Some ''PHONE_CALL'', deliveryOption = None, language = None,
       metadata = Map.empty \<rparr>"
  by (simp add: phoneCallEvents_def event_defs snd_processEvent processEvent_switch_def
      new_machine)



lemma visited_phoneCall:
  "visitedStates (UTITriageStateMachine_new None) phoneCallEvents =
     [INITIAL, IDENTITY_VERIFICATION, SYMPTOM_ASSESSMENT, RED_FLAG_CHECK,
      FOLLOW_UP_SELECTION, CONFIRMATION]"
  by (simp add: phoneCallEvents_def event_defs snd_processEvent processEvent_switch_def
      new_machine)




section \<open>The escalation policy: claims\<close>

text \<open>
  Claim C1. When the red flags of the input are not empty, \<open>assessUTISymptoms\<close> returns
  the recommendation \<open>escalate\<close> and \<open>suitableForTreatment = false\<close>, whatever the
  symptoms are. The red flags of an input are, as in the specification's data model, the
  present ones: the entries of \<^verbatim>\<open>redFlags\<close> with \<^verbatim>\<open>present = true\<close>.
\<close>

theorem assess_red_flag_dominance:
  "\<exists>rf\<in>set flags. flag_present rf \<Longrightarrow>
   recommendation (assessUTISymptoms syms flags) = escalate \<and>
   \<not> suitableForTreatment (assessUTISymptoms syms flags)"
proof -
  assume "\<exists>rf\<in>set flags. flag_present rf"
  then have "filter (\<lambda>rf. flag_present rf) flags \<noteq> []"
    by (simp add: filter_empty_conv)
  then show ?thesis
    by (simp add: assessUTISymptoms_def Let_def)
qed

text \<open>The input of the test \<^verbatim>\<open>should escalate on red flags\<close>.\<close>

theorem assess_red_flag_dominance_witness:
  "(\<exists>rf\<in>set [\<lparr>flag_type = high_temperature, flag_present = True\<rparr>]. flag_present rf) \<and>
   recommendation (assessUTISymptoms [symptomPresent burning_pain]
     [\<lparr>flag_type = high_temperature, flag_present = True\<rparr>]) = escalate \<and>
   \<not> suitableForTreatment (assessUTISymptoms [symptomPresent burning_pain]
     [\<lparr>flag_type = high_temperature, flag_present = True\<rparr>])"
  using assess_red_flag_dominance
    [of "[\<lparr>flag_type = high_temperature, flag_present = True\<rparr>]" "[symptomPresent burning_pain]"]
  by simp

text \<open>
  Claim C4. When no red flag of the input is present, \<open>assessUTISymptoms\<close> returns
  \<open>treat\<close> and \<open>suitableForTreatment = true\<close> if at least two of the four main symptom
  kinds are present, and \<open>escalate\<close> and \<open>suitableForTreatment = false\<close> if fewer than
  two are. The count is the specification's, \<open>presentMainSymptomCount\<close>: a kind that
  several entries report counts once.
\<close>

theorem assess_threshold:
  "\<forall>rf\<in>set flags. \<not> flag_present rf \<Longrightarrow>
   (2 \<le> presentMainSymptomCount syms \<longrightarrow>
      recommendation (assessUTISymptoms syms flags) = treat \<and>
      suitableForTreatment (assessUTISymptoms syms flags)) \<and>
   (presentMainSymptomCount syms < 2 \<longrightarrow>
      recommendation (assessUTISymptoms syms flags) = escalate \<and>
      \<not> suitableForTreatment (assessUTISymptoms syms flags))"
proof -
  assume "\<forall>rf\<in>set flags. \<not> flag_present rf"
  then have none: "filter (\<lambda>rf. flag_present rf) flags = []"
    by (simp add: no_present_flag)
  show ?thesis
    unfolding assessUTISymptoms_def Let_def counted_booleans none
    by simp
qed

text \<open>
  The input of the test \<^verbatim>\<open>should approve treatment for suitable symptoms\<close>, three
  kinds present, and an input with one kind reported twice.
\<close>

theorem assess_threshold_witness:
  "2 \<le> presentMainSymptomCount
     [symptomPresent burning_pain, symptomPresent frequency, symptomPresent cloudy_urine] \<and>
   recommendation (assessUTISymptoms
     [symptomPresent burning_pain, symptomPresent frequency, symptomPresent cloudy_urine] []) = treat \<and>
   suitableForTreatment (assessUTISymptoms
     [symptomPresent burning_pain, symptomPresent frequency, symptomPresent cloudy_urine] []) \<and>
   presentMainSymptomCount [symptomPresent burning_pain, symptomPresent burning_pain] < 2 \<and>
   recommendation (assessUTISymptoms
     [symptomPresent burning_pain, symptomPresent burning_pain] []) = escalate \<and>
   \<not> suitableForTreatment (assessUTISymptoms
     [symptomPresent burning_pain, symptomPresent burning_pain] [])"
  using
    assess_threshold [of "[]"
      "[symptomPresent burning_pain, symptomPresent frequency, symptomPresent cloudy_urine]"]
    assess_threshold [of "[]" "[symptomPresent burning_pain, symptomPresent burning_pain]"]
  by (simp add: count_three_kinds count_one_kind_twice)

text \<open>
  Claim C10. \<open>assessUTISymptoms\<close> never returns the recommendation \<open>refer\<close>;
  \<open>suitableForTreatment\<close> is true exactly when the recommendation is \<open>treat\<close>; the
  \<^verbatim>\<open>redFlags\<close> of the result are the input's red flags with \<^verbatim>\<open>present = true\<close>, in the
  input's order; and they are empty in the two branches after the red-flag check, the
  one that returns \<open>treat\<close> and the one whose reasoning is "Insufficient or unclear
  symptoms".
\<close>

theorem assess_result_shape:
  "recommendation (assessUTISymptoms syms flags) \<noteq> refer \<and>
   (suitableForTreatment (assessUTISymptoms syms flags) \<longleftrightarrow>
      recommendation (assessUTISymptoms syms flags) = treat) \<and>
   result_redFlags (assessUTISymptoms syms flags) = filter (\<lambda>rf. flag_present rf) flags \<and>
   (recommendation (assessUTISymptoms syms flags) = treat \<longrightarrow>
      result_redFlags (assessUTISymptoms syms flags) = []) \<and>
   (reasoning (assessUTISymptoms syms flags) =
      ''Insufficient or unclear symptoms. Pharmacist review recommended.'' \<longrightarrow>
      result_redFlags (assessUTISymptoms syms flags) = [])"
  by (simp add: assessUTISymptoms_def Let_def)

theorem assess_result_shape_witness:
  "recommendation (assessUTISymptoms
     [symptomPresent burning_pain, symptomPresent frequency, symptomPresent cloudy_urine]
     [\<lparr>flag_type = pregnancy, flag_present = False\<rparr>]) = treat \<and>
   result_redFlags (assessUTISymptoms
     [symptomPresent burning_pain, symptomPresent frequency, symptomPresent cloudy_urine]
     [\<lparr>flag_type = pregnancy, flag_present = False\<rparr>]) = [] \<and>
   reasoning (assessUTISymptoms [symptomPresent general_malaise] []) =
     ''Insufficient or unclear symptoms. Pharmacist review recommended.'' \<and>
   result_redFlags (assessUTISymptoms [symptomPresent general_malaise] []) = [] \<and>
   result_redFlags (assessUTISymptoms [symptomPresent burning_pain]
     [\<lparr>flag_type = pregnancy, flag_present = False\<rparr>,
      \<lparr>flag_type = high_temperature, flag_present = True\<rparr>]) =
     [\<lparr>flag_type = high_temperature, flag_present = True\<rparr>]"
proof -
  have t: "recommendation (assessUTISymptoms
     [symptomPresent burning_pain, symptomPresent frequency, symptomPresent cloudy_urine]
     [\<lparr>flag_type = pregnancy, flag_present = False\<rparr>]) = treat"
    by (simp add: assessUTISymptoms_def symptomPresent_def)
  have r: "reasoning (assessUTISymptoms [symptomPresent general_malaise] []) =
     ''Insufficient or unclear symptoms. Pharmacist review recommended.''"
    by (simp add: assessUTISymptoms_def symptomPresent_def)
  show ?thesis
    using t r
      assess_result_shape [of
        "[symptomPresent burning_pain, symptomPresent frequency, symptomPresent cloudy_urine]"
        "[\<lparr>flag_type = pregnancy, flag_present = False\<rparr>]"]
      assess_result_shape [of "[symptomPresent general_malaise]" "[]"]
      assess_result_shape [of "[symptomPresent burning_pain]"
        "[\<lparr>flag_type = pregnancy, flag_present = False\<rparr>,
          \<lparr>flag_type = high_temperature, flag_present = True\<rparr>]"]
    by simp
qed

section \<open>The state machine: claims\<close>

text \<open>
  Claim C2. Once a sequence of events has brought the session to \<open>ESCALATED\<close> or
  \<open>COMPLETED\<close>, a further \<open>processEvent\<close> call returns that state with the context as
  it was and leaves the machine's context unchanged, and so does every further sequence
  of calls.
\<close>

theorem terminal_idempotence:
  "state (processEvents ctx es) = ESCALATED \<or> state (processEvents ctx es) = COMPLETED \<Longrightarrow>
   processEvent (processEvents ctx es) e =
     (\<lparr> newState = state (processEvents ctx es), result_context = processEvents ctx es \<rparr>,
      processEvents ctx es) \<and>
   processEvents ctx (es @ es') = processEvents ctx es"
  by (simp add: terminal_step terminal_run processEvents_append)

theorem terminal_idempotence_witness:
  "state (processEvents (UTITriageStateMachine_new None) escalationEvents) = ESCALATED \<and>
   processEvent (processEvents (UTITriageStateMachine_new None) escalationEvents)
       (bare ''NO_RED_FLAGS'') =
     (\<lparr> newState = ESCALATED,
        result_context = processEvents (UTITriageStateMachine_new None) escalationEvents \<rparr>,
      processEvents (UTITriageStateMachine_new None) escalationEvents) \<and>
   processEvents (UTITriageStateMachine_new None)
       (escalationEvents @ [bare ''NO_RED_FLAGS'', changeRequested INITIAL, bare ''CONFIRMED'']) =
     processEvents (UTITriageStateMachine_new None) escalationEvents"
proof -
  have s: "state (processEvents (UTITriageStateMachine_new None) escalationEvents) = ESCALATED"
    by (simp add: run_escalation)
  show ?thesis
    using s terminal_idempotence [of "UTITriageStateMachine_new None" escalationEvents
        "bare ''NO_RED_FLAGS''"
        "[bare ''NO_RED_FLAGS'', changeRequested INITIAL, bare ''CONFIRMED'']"]
    by simp
qed

text \<open>
  Claim C3, as the code has it. \<open>processEvent\<close> validates no payload and has no
  validation failure: in \<open>IDENTITY_VERIFICATION\<close> an \<open>IDENTITY_VERIFIED\<close> event with any
  payload, also one without a name or with no payload at all, moves the session to
  \<open>SYMPTOM_ASSESSMENT\<close> and stores the three payload properties as they are, a
  missing one as \<^verbatim>\<open>undefined\<close>.
\<close>

theorem identity_verified_unvalidated:
  "state ctx = IDENTITY_VERIFICATION \<Longrightarrow> event_type event = ''IDENTITY_VERIFIED'' \<Longrightarrow>
   processEvent ctx event =
     (\<lparr> newState = SYMPTOM_ASSESSMENT,
        result_context = ctx\<lparr>patientId := data_prop event d_patientId,
          patientName := data_prop event d_name, patientDOB := data_prop event d_dob,
          state := SYMPTOM_ASSESSMENT\<rparr> \<rparr>,
      ctx\<lparr>patientId := data_prop event d_patientId,
          patientName := data_prop event d_name, patientDOB := data_prop event d_dob,
          state := SYMPTOM_ASSESSMENT\<rparr>)"
  by (simp add: processEvent_eq processEvent_switch_def)

text \<open>An \<open>IDENTITY_VERIFIED\<close> event with no payload, on a machine that has been started.\<close>

theorem identity_verified_unvalidated_witness:
  "state (snd (processEvent
     (processEvents (UTITriageStateMachine_new None) [bare ''START_TRIAGE''])
     (bare ''IDENTITY_VERIFIED''))) = SYMPTOM_ASSESSMENT \<and>
   patientName (snd (processEvent
     (processEvents (UTITriageStateMachine_new None) [bare ''START_TRIAGE''])
     (bare ''IDENTITY_VERIFIED''))) = None"
proof -
  have s: "state (processEvents (UTITriageStateMachine_new None) [bare ''START_TRIAGE'']) =
    IDENTITY_VERIFICATION"
    unfolding run_start by simp
  have t: "event_type (bare ''IDENTITY_VERIFIED'') = ''IDENTITY_VERIFIED''"
    by (simp add: bare_def)
  show ?thesis
    unfolding identity_verified_unvalidated [OF s t]
    by (simp add: bare_def data_prop_def)
qed

text \<open>
  The event of the specification's example, \<open>IDENTITY_VERIFIED\<close> with a date of birth
  and no name, is not rejected: the state changes and the date of birth is stored.
\<close>

theorem nameless_identity_accepted:
  "state (processEvents (UTITriageStateMachine_new None) [bare ''START_TRIAGE'']) =
     IDENTITY_VERIFICATION \<and>
   data_prop identityWithoutName d_name = None \<and>
   state (snd (processEvent
     (processEvents (UTITriageStateMachine_new None) [bare ''START_TRIAGE''])
     identityWithoutName)) = SYMPTOM_ASSESSMENT \<and>
   patientDOB (processEvents (UTITriageStateMachine_new None) [bare ''START_TRIAGE'']) = None \<and>
   patientDOB (snd (processEvent
     (processEvents (UTITriageStateMachine_new None) [bare ''START_TRIAGE''])
     identityWithoutName)) = Some ''1990-01-01''"
  unfolding run_start
  by (simp add: event_defs snd_processEvent processEvent_switch_def)

text \<open>
  Claim C5, as the code has it. When the state is \<open>CONFIRMATION\<close> and a
  \<open>CHANGE_REQUESTED\<close> event is processed, the new state is the event's target
  (\<^verbatim>\<open>previousState\<close>), whichever state that is, and nothing else of the context changes;
  an event without a target leaves the context as it was.
\<close>

theorem change_requested_target:
  "state ctx = CONFIRMATION \<Longrightarrow> event_type event = ''CHANGE_REQUESTED'' \<Longrightarrow>
   processEvent ctx event =
     (case data_prop event d_previousState of
        Some target \<Rightarrow>
          (\<lparr> newState = target, result_context = ctx\<lparr>state := target\<rparr> \<rparr>,
           ctx\<lparr>state := target\<rparr>)
      | None \<Rightarrow> (\<lparr> newState = CONFIRMATION, result_context = ctx \<rparr>, ctx))"
  by (simp add: processEvent_eq processEvent_switch_def split: option.split)

text \<open>The specification's scenario C: from \<open>CONFIRMATION\<close> back to \<open>FOLLOW_UP_SELECTION\<close>.\<close>

theorem change_requested_target_witness:
  "state (processEvents (UTITriageStateMachine_new None) phoneCallEvents) = CONFIRMATION \<and>
   state (snd (processEvent (processEvents (UTITriageStateMachine_new None) phoneCallEvents)
     (changeRequested FOLLOW_UP_SELECTION))) = FOLLOW_UP_SELECTION \<and>
   processEvent (processEvents (UTITriageStateMachine_new None) phoneCallEvents)
     (bare ''CHANGE_REQUESTED'') =
     (\<lparr> newState = CONFIRMATION,
        result_context = processEvents (UTITriageStateMachine_new None) phoneCallEvents \<rparr>,
      processEvents (UTITriageStateMachine_new None) phoneCallEvents)"
  using
    change_requested_target
      [of "processEvents (UTITriageStateMachine_new None) phoneCallEvents"
        "changeRequested FOLLOW_UP_SELECTION"]
    change_requested_target
      [of "processEvents (UTITriageStateMachine_new None) phoneCallEvents"
        "bare ''CHANGE_REQUESTED''"]
  by (simp add: run_phoneCall changeRequested_def bare_def noData_def data_prop_def)

text \<open>
  The target is not checked: a session that reached \<open>CONFIRMATION\<close> by a phone call and
  never was in \<open>ESCALATED\<close> is moved there by \<open>CHANGE_REQUESTED\<close> with that target.
\<close>

theorem change_to_unvisited_terminal:
  "state (processEvents (UTITriageStateMachine_new None) phoneCallEvents) = CONFIRMATION \<and>
   ESCALATED \<notin> set (visitedStates (UTITriageStateMachine_new None) phoneCallEvents) \<and>
   state (snd (processEvent (processEvents (UTITriageStateMachine_new None) phoneCallEvents)
     (changeRequested ESCALATED))) = ESCALATED"
  unfolding run_phoneCall visited_phoneCall
  by (simp add: event_defs snd_processEvent processEvent_switch_def)




text \<open>
  Claim C7. \<open>processEvent\<close> returns for every context and event, the returned object
  holding the new state and the new context; and for every pair of a state and an event
  kind that the transition table does not list, it returns the state and the context
  unchanged and leaves the machine's context as it was.
\<close>

theorem unlisted_is_noop:
  "fst (processEvent ctx event) =
     \<lparr> newState = state (snd (processEvent ctx event)),
       result_context = snd (processEvent ctx event) \<rparr> \<and>
   (\<not> listedTransition (state ctx) (event_type event) \<longrightarrow>
      processEvent ctx event = (\<lparr> newState = state ctx, result_context = ctx \<rparr>, ctx))"
proof
  show "fst (processEvent ctx event) =
     \<lparr> newState = state (snd (processEvent ctx event)),
       result_context = snd (processEvent ctx event) \<rparr>"
    by (simp add: processEvent_eq)
  show "\<not> listedTransition (state ctx) (event_type event) \<longrightarrow>
      processEvent ctx event = (\<lparr> newState = state ctx, result_context = ctx \<rparr>, ctx)"
    by (cases "state ctx")
      (simp_all add: listedTransition_def processEvent_eq processEvent_switch_def)
qed

text \<open>
  \<open>RED_FLAG_DETECTED\<close> in \<open>SYMPTOM_ASSESSMENT\<close>, which the voice agent sends, is not a row
  of the table.
\<close>

theorem unlisted_is_noop_witness:
  "state (processEvents (UTITriageStateMachine_new None)
     [bare ''START_TRIAGE'', identityVerified]) = SYMPTOM_ASSESSMENT \<and>
   \<not> listedTransition SYMPTOM_ASSESSMENT (event_type (redFlagDetected ''high_temperature'')) \<and>
   processEvent
     (processEvents (UTITriageStateMachine_new None) [bare ''START_TRIAGE'', identityVerified])
     (redFlagDetected ''high_temperature'') =
     (\<lparr> newState = SYMPTOM_ASSESSMENT,
        result_context = processEvents (UTITriageStateMachine_new None)
          [bare ''START_TRIAGE'', identityVerified] \<rparr>,
      processEvents (UTITriageStateMachine_new None) [bare ''START_TRIAGE'', identityVerified])"
proof -
  have s: "state (processEvents (UTITriageStateMachine_new None)
      [bare ''START_TRIAGE'', identityVerified]) = SYMPTOM_ASSESSMENT"
    unfolding run_identity by simp
  have n: "\<not> listedTransition SYMPTOM_ASSESSMENT
      (event_type (redFlagDetected ''high_temperature''))"
    by (simp add: listedTransition_def redFlagDetected_def)
  show ?thesis
    using s n unlisted_is_noop
      [of "processEvents (UTITriageStateMachine_new None)
          [bare ''START_TRIAGE'', identityVerified]"
        "redFlagDetected ''high_temperature''"]
    by simp
qed

text \<open>
  Claim C8. For every session, \<open>needsPharmacistReview\<close> is true if and only if the
  state is \<open>ESCALATED\<close>, or \<^verbatim>\<open>redFlags\<close> is not empty, or the state is \<open>CONFIRMATION\<close>.
\<close>

theorem needsPharmacistReview_iff:
  "needsPharmacistReview ctx \<longleftrightarrow>
     state ctx = ESCALATED \<or> redFlags ctx \<noteq> [] \<or> state ctx = CONFIRMATION"
  by (simp add: needsPharmacistReview_def)

theorem needsPharmacistReview_iff_witness:
  "needsPharmacistReview (processEvents (UTITriageStateMachine_new None) escalationEvents) \<and>
   needsPharmacistReview (processEvents (UTITriageStateMachine_new None) phoneCallEvents) \<and>
   \<not> needsPharmacistReview (UTITriageStateMachine_new None)"
proof -
  have a: "state (processEvents (UTITriageStateMachine_new None) escalationEvents) = ESCALATED"
    unfolding run_escalation by simp
  have b: "state (processEvents (UTITriageStateMachine_new None) phoneCallEvents) = CONFIRMATION"
    unfolding run_phoneCall by simp
  have c: "state (UTITriageStateMachine_new None) = INITIAL"
    "redFlags (UTITriageStateMachine_new None) = []"
    by (simp_all add: new_machine)
  show ?thesis
    using a b c
      needsPharmacistReview_iff
        [of "processEvents (UTITriageStateMachine_new None) escalationEvents"]
      needsPharmacistReview_iff
        [of "processEvents (UTITriageStateMachine_new None) phoneCallEvents"]
      needsPharmacistReview_iff [of "UTITriageStateMachine_new None"]
    by simp
qed

text \<open>
  Claim C9, as the code has it. \<open>getNextQuestion\<close> depends on the current state only;
  it returns none for \<open>ESCALATED\<close>, for \<open>COMPLETED\<close> and for \<open>INITIAL\<close>, and for each of
  the six other states it returns exactly one prompt.
\<close>

theorem getNextQuestion_by_state:
  "(state ctx = state ctx' \<longrightarrow> getNextQuestion ctx = getNextQuestion ctx') \<and>
   (getNextQuestion ctx = None \<longleftrightarrow>
      state ctx = INITIAL \<or> state ctx = ESCALATED \<or> state ctx = COMPLETED) \<and>
   (state ctx \<noteq> INITIAL \<and> state ctx \<noteq> ESCALATED \<and> state ctx \<noteq> COMPLETED \<longrightarrow>
      (\<exists>!p. getNextQuestion ctx = Some p))"
  by (cases "state ctx") (simp_all add: getNextQuestion_def)

theorem getNextQuestion_by_state_witness:
  "state (setLanguage (processEvents (UTITriageStateMachine_new None) phoneCallEvents) ''ur'') =
     state (processEvents (UTITriageStateMachine_new None) phoneCallEvents) \<and>
   getNextQuestion (processEvents (UTITriageStateMachine_new None) phoneCallEvents) =
     getNextQuestion
       (setLanguage (processEvents (UTITriageStateMachine_new None) phoneCallEvents) ''ur'') \<and>
   getNextQuestion (processEvents (UTITriageStateMachine_new None) phoneCallEvents) \<noteq> None \<and>
   getNextQuestion (processEvents (UTITriageStateMachine_new None) escalationEvents) = None"
proof -
  have a: "state (processEvents (UTITriageStateMachine_new None) phoneCallEvents) = CONFIRMATION"
    unfolding run_phoneCall by simp
  have b: "state (setLanguage
      (processEvents (UTITriageStateMachine_new None) phoneCallEvents) ''ur'') = CONFIRMATION"
    using a by (simp add: setLanguage_def)
  have c: "state (processEvents (UTITriageStateMachine_new None) escalationEvents) = ESCALATED"
    unfolding run_escalation by simp
  have e: "getNextQuestion (processEvents (UTITriageStateMachine_new None) phoneCallEvents) =
      getNextQuestion
        (setLanguage (processEvents (UTITriageStateMachine_new None) phoneCallEvents) ''ur'')"
    using a b getNextQuestion_by_state
        [of "processEvents (UTITriageStateMachine_new None) phoneCallEvents"
          "setLanguage (processEvents (UTITriageStateMachine_new None) phoneCallEvents) ''ur''"]
    by simp
  have n: "getNextQuestion (processEvents (UTITriageStateMachine_new None) phoneCallEvents) \<noteq>
      None"
    using a getNextQuestion_by_state
        [of "processEvents (UTITriageStateMachine_new None) phoneCallEvents"
          "processEvents (UTITriageStateMachine_new None) phoneCallEvents"]
    by simp
  have z: "getNextQuestion (processEvents (UTITriageStateMachine_new None) escalationEvents) =
      None"
    using c getNextQuestion_by_state
        [of "processEvents (UTITriageStateMachine_new None) escalationEvents"
          "processEvents (UTITriageStateMachine_new None) escalationEvents"]
    by simp
  show ?thesis
    using a b e n z by simp
qed

text \<open>A new machine is in \<open>INITIAL\<close>, a state that is not terminal, and has no prompt.\<close>

theorem initial_has_no_prompt:
  "state (UTITriageStateMachine_new None) = INITIAL \<and>
   \<not> isComplete (UTITriageStateMachine_new None) \<and>
   getNextQuestion (UTITriageStateMachine_new None) = None"
  by (simp add: getNextQuestion_def isComplete_def new_machine)

end
